theory Spec2Isabelle
  imports Complex_Main
begin

section \<open>Embedding of the functions of SIRModel.ipynb\<close>

text \<open>
  The notebook computes with Python numbers. They are embedded as \<^typ>\<open>real\<close>:
  rounding is left out, every other step of the arithmetic is kept, in the order the
  source writes it. Python's true division \<^verbatim>\<open>a / b\<close> raises
  \<^verbatim>\<open>ZeroDivisionError\<close> on a zero divisor, and \<^verbatim>\<open>q[t]\<close> raises
  \<^verbatim>\<open>IndexError\<close> outside the sequence; a function that can raise returns
  \<open>exception + 'a\<close>, with \<open>Inl\<close> for the exception. The source defines no exception
  class and no guard of its own.
\<close>

datatype exception = ZeroDivisionError | IndexError

definition true_div :: "real \<Rightarrow> real \<Rightarrow> exception + real" where
  "true_div a b = (if b = 0 then Inl ZeroDivisionError else Inr (a / b))"

text \<open>
  Subscription of a sequence by an integer: an index below zero counts from the end.
\<close>

definition getitem :: "real list \<Rightarrow> int \<Rightarrow> exception + real" where
  "getitem q t =
     (if 0 \<le> t \<and> t < int (length q) then Inr (q ! nat t)
      else if t < 0 \<and> - int (length q) \<le> t then Inr (q ! nat (int (length q) + t))
      else Inl IndexError)"

subsection \<open>Disease SIR: \<^verbatim>\<open>deriv\<close> (cell 3, and again unchanged in cell 5)\<close>

text \<open>
  \<^verbatim>\<open>
  def deriv(y, t, N, beta, gamma):
      S, I, R = y
      dSdt = -beta * S * I / N
      dIdt = beta * S * I / N - gamma * I
      dRdt = gamma * I
      return dSdt, dIdt, dRdt
  \<close>
\<close>

definition deriv ::
  "real \<times> real \<times> real \<Rightarrow> real \<Rightarrow> real \<Rightarrow> real \<Rightarrow> real \<Rightarrow> exception + real \<times> real \<times> real" where
  "deriv y t N beta gamma =
     (case y of (S, I, R) \<Rightarrow>
        (case true_div (- beta * S * I) N of
           Inl e \<Rightarrow> Inl e
         | Inr dSdt \<Rightarrow>
             (case true_div (beta * S * I) N of
                Inl e \<Rightarrow> Inl e
              | Inr infection \<Rightarrow>
                  (let dIdt = infection - gamma * I;
                       dRdt = gamma * I
                   in Inr (dSdt, dIdt, dRdt)))))"

subsection \<open>Link utilities (cells 8 to 10)\<close>

text \<open>
  \<^verbatim>\<open>
  def congested(v_t, v_max, rho):
      congested = (v_t / v_max) < rho
      return congested
  \<close>
\<close>

definition congested :: "real \<Rightarrow> real \<Rightarrow> real \<Rightarrow> exception + bool" where
  "congested v_t v_max rho =
     (case true_div v_t v_max of
        Inl e \<Rightarrow> Inl e
      | Inr ratio \<Rightarrow> Inr (ratio < rho))"

text \<open>
  \<^verbatim>\<open>
  def propagation_time(l, q_c, v_f, k_j):
      k_c = q_c / v_f
      omega = q_c / (k_j - k_c)
      eta = l / omega
      return eta
  \<close>
\<close>

definition propagation_time :: "real \<Rightarrow> real \<Rightarrow> real \<Rightarrow> real \<Rightarrow> exception + real" where
  "propagation_time l q_c v_f k_j =
     (case true_div q_c v_f of
        Inl e \<Rightarrow> Inl e
      | Inr k_c \<Rightarrow>
          (case true_div q_c (k_j - k_c) of
             Inl e \<Rightarrow> Inl e
           | Inr omega \<Rightarrow> true_div l omega))"

text \<open>
  \<^verbatim>\<open>
  def deriv_congested_links(l, q, v_f, k_j, t):
      eta = propagation_time(l, q[t], v_f, k_j)
      dCdt = 1 / eta
      return dCdt
  \<close>
\<close>

definition deriv_congested_links ::
  "real \<Rightarrow> real list \<Rightarrow> real \<Rightarrow> real \<Rightarrow> int \<Rightarrow> exception + real" where
  "deriv_congested_links l q v_f k_j t =
     (case getitem q t of
        Inl e \<Rightarrow> Inl e
      | Inr q_t \<Rightarrow>
          (case propagation_time l q_t v_f k_j of
             Inl e \<Rightarrow> Inl e
           | Inr eta \<Rightarrow> true_div 1 eta))"

subsection \<open>Traffic SIR: the two \<^verbatim>\<open>deriv_traffic\<close> (cells 11 and 13)\<close>

text \<open>
  Both cells define \<^verbatim>\<open>plot_traffic_SIR\<close>, which binds \<^verbatim>\<open>k = 1\<close> before it
  defines \<^verbatim>\<open>deriv_traffic\<close>; the nested function reads \<open>k\<close> from there.
\<close>

definition k :: real where
  "k = 1"

text \<open>
  Cell 11, the older one. It divides nothing, so it cannot raise.
  \<^verbatim>\<open>
  def deriv_traffic(y, t, N, beta, miu):
      f, c, r = y
      dcdt = - miu * c + beta * k * c * (1 - r - c)
      drdt = miu * c
      dfdt = - beta * k * c * (1 - r - c)
      return dcdt, drdt, dfdt
  \<close>
\<close>

definition deriv_traffic_cell11 ::
  "real \<times> real \<times> real \<Rightarrow> real \<Rightarrow> real \<Rightarrow> real \<Rightarrow> real \<Rightarrow> real \<times> real \<times> real" where
  "deriv_traffic_cell11 y t N beta miu =
     (case y of (f, c, r) \<Rightarrow>
        (let dcdt = - miu * c + beta * k * c * (1 - r - c);
             drdt = miu * c;
             dfdt = - beta * k * c * (1 - r - c)
         in (dcdt, drdt, dfdt)))"

text \<open>
  Cell 13, the later one, which replaces the definition of cell 11 when the notebook runs.
  \<^verbatim>\<open>
  def deriv_traffic(y, t, N, beta, miu):
      F, C, R = y
      frac_F, frac_C, frac_R = F / N, C / N, R / N
      dFdt = - beta * k * C * (1 - frac_R - frac_C)
      dCdt = - miu * C + beta * k * C * (1 - frac_R - frac_C)
      dRdt = miu * C
      return dCdt, dRdt, dFdt
  \<close>
  The three quotients are evaluated left to right, each of them also when its value is
  not read afterwards.
\<close>

definition deriv_traffic ::
  "real \<times> real \<times> real \<Rightarrow> real \<Rightarrow> real \<Rightarrow> real \<Rightarrow> real \<Rightarrow> exception + real \<times> real \<times> real" where
  "deriv_traffic y t N beta miu =
     (case y of (F, C, R) \<Rightarrow>
        (case true_div F N of
           Inl e \<Rightarrow> Inl e
         | Inr frac_F \<Rightarrow>
             (case true_div C N of
                Inl e \<Rightarrow> Inl e
              | Inr frac_C \<Rightarrow>
                  (case true_div R N of
                     Inl e \<Rightarrow> Inl e
                   | Inr frac_R \<Rightarrow>
                       (let dFdt = - beta * k * C * (1 - frac_R - frac_C);
                            dCdt = - miu * C + beta * k * C * (1 - frac_R - frac_C);
                            dRdt = miu * C
                        in Inr (dCdt, dRdt, dFdt))))))"

subsection \<open>Initial vectors\<close>

text \<open>
  The integrator is called as \<^verbatim>\<open>odeint(deriv, y0, t, args=(N, beta, gamma))\<close> in cell 3
  and as \<^verbatim>\<open>odeint(deriv_traffic, y_0, t, args=(N, beta, miu))\<close> in cell 13; its first
  evaluation of the derivative is at the initial vector. The integrator itself belongs to
  SciPy and is not embedded.
  \<^verbatim>\<open>
  N = 1000
  I0, R0 = 1, 0
  S0 = N - I0 - R0
  y0 = S0, I0, R0
  \<close>
\<close>

definition y0 :: "real \<times> real \<times> real" where
  "y0 = (let N = 1000; I0 = 1; R0 = 0; S0 = N - I0 - R0 in (S0, I0, R0))"

text \<open>
  \<^verbatim>\<open>
  N = 1000
  C_0 = 1
  R_0 = 0
  F_0 = N - C_0 - R_0
  y_0 = F_0, C_0, R_0
  \<close>
\<close>

definition y_0 :: "real \<times> real \<times> real" where
  "y_0 = (let N = 1000; C_0 = 1; R_0 = 0; F_0 = N - C_0 - R_0 in (F_0, C_0, R_0))"

section \<open>Division\<close>

lemma true_div_nonzero: "b \<noteq> 0 \<Longrightarrow> true_div a b = Inr (a / b)"
  by (simp add: true_div_def)

section \<open>Disease SIR\<close>

text \<open>
  C2. With \<open>N \<noteq> 0\<close> the derivative of the disease model at the state \<open>(S, I, R)\<close> is the
  triple \<open>(- beta * S * I / N, beta * S * I / N - gamma * I, gamma * I)\<close>: the first
  component is the rate of \<open>S\<close>, the second of \<open>I\<close>, the third of \<open>R\<close>, in the order of the
  state and of the initial vector \<open>(S0, I0, R0)\<close>.
\<close>

theorem deriv_triple:
  "N \<noteq> 0 \<Longrightarrow>
     deriv (S, I, R) t N beta gamma =
       Inr (- beta * S * I / N, beta * S * I / N - gamma * I, gamma * I)"
  by (simp add: deriv_def true_div_nonzero)

theorem deriv_triple_witness:
  "(1000::real) \<noteq> 0 \<and> y0 = (999, 1, 0) \<and>
   deriv y0 0 1000 (1/5) (1/10) = Inr (- (999/5000), 499/5000, 1/10)"
  using deriv_triple [where N = 1000 and S = 999 and I = 1 and R = 0 and t = 0
      and beta = "1/5" and gamma = "1/10"]
  by (simp add: y0_def)

section \<open>Conservation\<close>





section \<open>No spontaneous outbreak\<close>



section \<open>The congestion classifier\<close>

text \<open>
  C6. For a speed limit \<open>v_max > 0\<close>, every speed \<open>v_t\<close> and every threshold \<open>rho\<close>, the
  classifier returns the truth value of \<open>v_t / v_max < rho\<close>. On \<open>v_t = 20\<close>, \<open>v_max = 60\<close>,
  \<open>rho = 0.5\<close> it returns true, and a stopped link (\<open>v_t = 0\<close>) is congested for every
  \<open>rho > 0\<close>.
\<close>

theorem congested_iff_ratio_below:
  "(0 < v_max \<longrightarrow> congested v_t v_max rho = Inr (v_t / v_max < rho)) \<and>
   congested 20 60 0.5 = Inr True \<and>
   (0 < v_max \<and> 0 < rho \<longrightarrow> congested 0 v_max rho = Inr True)"
  by (simp add: congested_def true_div_def)

theorem congested_iff_ratio_below_witness:
  "(0::real) < 60 \<and> (0::real) < 1/4 \<and>
   congested 45 60 (1/4) = Inr False \<and>
   congested 20 60 0.5 = Inr True \<and>
   congested 0 60 (1/4) = Inr True"
  using congested_iff_ratio_below [where v_max = 60 and v_t = 45 and rho = "1/4"]
  by simp

section \<open>The propagation timer\<close>

lemma propagation_time_value:
  "v_f \<noteq> 0 \<Longrightarrow> k_j \<noteq> q_c / v_f \<Longrightarrow> q_c \<noteq> 0 \<Longrightarrow>
     propagation_time l q_c v_f k_j = Inr (l / (q_c / (k_j - q_c / v_f)))"
  by (simp add: propagation_time_def true_div_def)

lemma propagation_time_raises:
  "v_f = 0 \<or> k_j = q_c / v_f \<or> q_c = 0 \<Longrightarrow>
     propagation_time l q_c v_f k_j = Inl ZeroDivisionError"
  by (auto simp add: propagation_time_def true_div_def)

text \<open>
  C5, as the code has it. For \<open>v_f \<noteq> 0\<close>, \<open>k_j \<noteq> q_c / v_f\<close> and \<open>q_c \<noteq> 0\<close> the timer
  returns \<open>l / (q_c / (k_j - q_c / v_f))\<close>: the critical density is \<open>q_c / v_f\<close>, the
  shockwave speed is \<open>q_c\<close> over the jam density less the critical density, and the
  result is the length over that speed. On \<open>l = 500\<close>, \<open>q_c = 1800\<close>, \<open>v_f = 60\<close>,
  \<open>k_j = 180\<close> the critical density is 30, the shockwave speed 12 and the result \<open>500 / 12\<close>.
\<close>

theorem propagation_time_formula:
  "(v_f \<noteq> 0 \<and> k_j \<noteq> q_c / v_f \<and> q_c \<noteq> 0 \<longrightarrow>
      propagation_time l q_c v_f k_j = Inr (l / (q_c / (k_j - q_c / v_f)))) \<and>
   true_div 1800 60 = Inr 30 \<and>
   true_div 1800 (180 - 30) = Inr 12 \<and>
   true_div 500 12 = Inr (500 / 12) \<and>
   propagation_time 500 1800 60 180 = Inr (500 / 12)"
proof -
  have general: "v_f \<noteq> 0 \<and> k_j \<noteq> q_c / v_f \<and> q_c \<noteq> 0 \<longrightarrow>
      propagation_time l q_c v_f k_j = Inr (l / (q_c / (k_j - q_c / v_f)))"
    by (simp add: propagation_time_value)
  have steps: "true_div 1800 60 = Inr 30" "true_div 1800 (180 - 30) = Inr 12"
      "true_div 500 12 = Inr (500 / 12)"
    by (simp_all add: true_div_def)
  have scenario: "propagation_time 500 1800 60 180 = Inr (500 / 12)"
    by (simp add: propagation_time_def true_div_def)
  from general steps scenario show ?thesis by blast
qed

theorem propagation_time_formula_witness:
  "(60::real) \<noteq> 0 \<and> (180::real) \<noteq> 1800 / 60 \<and> (1800::real) \<noteq> 0 \<and>
   propagation_time 500 1800 60 180 = Inr (125 / 3)"
  using propagation_time_formula [where l = 500 and q_c = 1800 and v_f = 60 and k_j = 180]
  by simp

text \<open>
  C5 as the claim states it, without \<open>q_c \<noteq> 0\<close>, fails: a link with no flow has shockwave
  speed zero, and the last division raises.
\<close>

theorem propagation_time_zero_flow_raises:
  "(60::real) \<noteq> 0 \<and> (180::real) \<noteq> 0 / 60 \<and>
   propagation_time 500 0 60 180 = Inl ZeroDivisionError \<and>
   propagation_time 500 0 60 180 \<noteq> Inr (500 / (0 / (180 - 0 / 60)))"
  by (simp add: propagation_time_def true_div_def)

text \<open>
  C9, as the code has it. For \<open>v_f > 0\<close> and \<open>k_j > q_c / v_f\<close>, and for a link of length
  \<open>l > 0\<close> with flow \<open>q_c > 0\<close>, the timer returns a number, and the number is positive.
\<close>

theorem propagation_time_positive:
  "0 < v_f \<Longrightarrow> q_c / v_f < k_j \<Longrightarrow> 0 < l \<Longrightarrow> 0 < q_c \<Longrightarrow>
     \<exists>eta. propagation_time l q_c v_f k_j = Inr eta \<and> 0 < eta"
proof -
  assume v_f: "0 < v_f" and k_j: "q_c / v_f < k_j" and l: "0 < l" and q_c: "0 < q_c"
  have returned: "propagation_time l q_c v_f k_j = Inr (l / (q_c / (k_j - q_c / v_f)))"
    using v_f k_j q_c by (simp add: propagation_time_value)
  have "0 < q_c / (k_j - q_c / v_f)"
    using k_j q_c by simp
  with l have "0 < l / (q_c / (k_j - q_c / v_f))"
    by (rule divide_pos_pos)
  with returned show ?thesis by simp
qed

theorem propagation_time_positive_witness:
  "(0::real) < 60 \<and> (1800::real) / 60 < 180 \<and> (0::real) < 500 \<and> (0::real) < 1800 \<and>
   (\<exists>eta. propagation_time 500 1800 60 180 = Inr eta \<and> 0 < eta)"
  using propagation_time_positive [where l = 500 and q_c = 1800 and v_f = 60 and k_j = 180]
  by simp

text \<open>
  C9 as the claim states it, for every \<open>l\<close> and \<open>q_c\<close>, fails: under \<open>v_f > 0\<close> and
  \<open>k_j > q_c / v_f\<close> a link of length zero takes time zero, a negative flow gives a
  negative time, and a zero flow raises.
\<close>

theorem propagation_time_not_positive:
  "(0::real) < 60 \<and> (1800::real) / 60 < 180 \<and> (- 1800::real) / 60 < 180 \<and>
   (0::real) / 60 < 180 \<and>
   propagation_time 0 1800 60 180 = Inr 0 \<and>
   propagation_time 500 (- 1800) 60 180 = Inr (- (175 / 3)) \<and>
   propagation_time 500 0 60 180 = Inl ZeroDivisionError"
  by (simp add: propagation_time_def true_div_def)

section \<open>What raises\<close>

text \<open>
  C4, as the code has it. The classifier raises exactly when \<open>v_max = 0\<close>, and the timer
  raises exactly when \<open>v_f = 0\<close>, or \<open>k_j = q_c / v_f\<close>, or \<open>q_c = 0\<close>; what is raised is
  \<open>ZeroDivisionError\<close>, and no value is returned then. On every other input, a negative
  \<open>v_max\<close> or \<open>v_f\<close> and \<open>k_j < q_c / v_f\<close> among them, a value is returned.
\<close>

theorem raises_exactly_on_zero_divisor:
  "(congested v_t v_max rho = Inl ZeroDivisionError \<longleftrightarrow> v_max = 0) \<and>
   (v_max \<noteq> 0 \<longrightarrow> congested v_t v_max rho = Inr (v_t / v_max < rho)) \<and>
   (propagation_time l q_c v_f k_j = Inl ZeroDivisionError
      \<longleftrightarrow> v_f = 0 \<or> k_j = q_c / v_f \<or> q_c = 0) \<and>
   (\<not> (v_f = 0 \<or> k_j = q_c / v_f \<or> q_c = 0) \<longrightarrow>
      propagation_time l q_c v_f k_j = Inr (l / (q_c / (k_j - q_c / v_f)))) \<and>
   congested v_t v_max rho \<noteq> Inl IndexError \<and>
   propagation_time l q_c v_f k_j \<noteq> Inl IndexError"
proof -
  have c1: "congested v_t v_max rho = Inl ZeroDivisionError \<longleftrightarrow> v_max = 0"
    by (simp add: congested_def true_div_def)
  have c2: "v_max \<noteq> 0 \<longrightarrow> congested v_t v_max rho = Inr (v_t / v_max < rho)"
    by (simp add: congested_def true_div_def)
  have p2: "\<not> (v_f = 0 \<or> k_j = q_c / v_f \<or> q_c = 0) \<longrightarrow>
      propagation_time l q_c v_f k_j = Inr (l / (q_c / (k_j - q_c / v_f)))"
    by (simp add: propagation_time_value)
  have p1: "propagation_time l q_c v_f k_j = Inl ZeroDivisionError
      \<longleftrightarrow> v_f = 0 \<or> k_j = q_c / v_f \<or> q_c = 0"
    using p2 propagation_time_raises [of v_f k_j q_c l] by auto
  have c3: "congested v_t v_max rho \<noteq> Inl IndexError"
    by (simp add: congested_def true_div_def)
  have p3: "propagation_time l q_c v_f k_j \<noteq> Inl IndexError"
    using p1 p2 by (cases "v_f = 0 \<or> k_j = q_c / v_f \<or> q_c = 0") auto
  from c1 c2 p1 p2 c3 p3 show ?thesis by blast
qed

theorem raises_exactly_on_zero_divisor_witness:
  "congested 20 0 (1/2) = Inl ZeroDivisionError \<and>
   congested 20 60 (1/2) = Inr True \<and>
   propagation_time 500 1800 60 30 = Inl ZeroDivisionError \<and>
   propagation_time 500 1800 60 180 = Inr (125 / 3)"
  using raises_exactly_on_zero_divisor [where v_t = 20 and v_max = 0 and rho = "1/2"
      and l = 500 and q_c = 1800 and v_f = 60 and k_j = 30]
    raises_exactly_on_zero_divisor [where v_t = 20 and v_max = 60 and rho = "1/2"
      and l = 500 and q_c = 1800 and v_f = 60 and k_j = 180]
  by simp

text \<open>
  C4 as the claim states it, for \<open>v_max \<le> 0\<close>, \<open>v_f \<le> 0\<close> and \<open>k_j \<le> k_c\<close>, fails: on a
  negative \<open>v_max\<close>, on a negative \<open>v_f\<close> and on \<open>k_j\<close> below the critical density the
  functions return a value.
\<close>

theorem negative_divisor_returns:
  "(- 60::real) \<le> 0 \<and> (20::real) \<le> 1800 / 60 \<and>
   congested 20 (- 60) (1/2) = Inr True \<and>
   propagation_time 500 1800 (- 60) 180 = Inr (175 / 3) \<and>
   propagation_time 500 1800 60 20 = Inr (- (25 / 9))"
  by (simp add: congested_def propagation_time_def true_div_def)

section \<open>The rate of congested links\<close>

text \<open>
  C10. When \<open>q[t]\<close> is defined, \<open>v_f \<noteq> 0\<close>, and the timer returns a nonzero \<open>eta\<close> on
  \<open>q[t]\<close>, the rate returned is \<open>1 / eta\<close>, which is \<open>q[t] / (l * (k_j - q[t] / v_f))\<close>.
\<close>

theorem deriv_congested_links_inverse:
  "getitem q t = Inr q_t \<Longrightarrow> v_f \<noteq> 0 \<Longrightarrow>
   propagation_time l q_t v_f k_j = Inr eta \<Longrightarrow> eta \<noteq> 0 \<Longrightarrow>
     deriv_congested_links l q v_f k_j t = Inr (1 / eta) \<and>
     1 / eta = q_t / (l * (k_j - q_t / v_f))"
proof -
  assume item: "getitem q t = Inr q_t" and v_f: "v_f \<noteq> 0"
    and time: "propagation_time l q_t v_f k_j = Inr eta" and eta: "eta \<noteq> 0"
  have rate: "deriv_congested_links l q v_f k_j t = Inr (1 / eta)"
    using item time eta by (simp add: deriv_congested_links_def true_div_def)
  have defined: "\<not> (v_f = 0 \<or> k_j = q_t / v_f \<or> q_t = 0)"
    using time propagation_time_raises [of v_f k_j q_t l] by auto
  then have "eta = l / (q_t / (k_j - q_t / v_f))"
    using time by (simp add: propagation_time_value)
  then have "1 / eta = q_t / (l * (k_j - q_t / v_f))"
    by simp
  with rate show ?thesis ..
qed

theorem deriv_congested_links_inverse_witness:
  "getitem [1200, 1800, 900] 1 = Inr 1800 \<and> (60::real) \<noteq> 0 \<and>
   propagation_time 500 1800 60 180 = Inr (125 / 3) \<and> (125 / 3 :: real) \<noteq> 0 \<and>
   deriv_congested_links 500 [1200, 1800, 900] 60 180 1 = Inr (3 / 125)"
proof -
  have item: "getitem [1200, 1800, 900] 1 = Inr 1800"
    by (simp add: getitem_def)
  have time: "propagation_time 500 1800 60 180 = Inr (125 / 3)"
    by (simp add: propagation_time_def true_div_def)
  show ?thesis
    using item time
      deriv_congested_links_inverse [where q = "[1200, 1800, 900]" and t = 1
        and q_t = 1800 and v_f = 60 and l = 500 and k_j = 180 and eta = "125 / 3"]
    by simp
qed

section \<open>Traffic SIR\<close>

text \<open>
  C7. The source holds two formulations of the traffic derivative. The older one
  (cell 11) builds every term from the components of the state as they are, with no
  division by \<open>N\<close>: its transition term is \<open>beta * k * c * (1 - r - c)\<close>. The later one
  (cell 13) multiplies the component \<open>C\<close> by \<open>1 - R / N - C / N\<close>, the fractions of the
  total. The two are different functions of the state: they differ at the state
  \<open>(999, 1, 0)\<close> of 1000 links.
\<close>

theorem deriv_traffic_formulations_differ:
  "deriv_traffic_cell11 (f, c, r) t N beta miu =
     (- miu * c + beta * k * c * (1 - r - c), miu * c, - beta * k * c * (1 - r - c)) \<and>
   (N \<noteq> 0 \<longrightarrow>
      deriv_traffic (F, C, R) t N beta miu =
        Inr (- miu * C + beta * k * C * (1 - R / N - C / N), miu * C,
             - beta * k * C * (1 - R / N - C / N))) \<and>
   deriv_traffic (999, 1, 0) 0 1000 (1/5) (1/10)
     \<noteq> Inr (deriv_traffic_cell11 (999, 1, 0) 0 1000 (1/5) (1/10)) \<and>
   deriv_traffic \<noteq> (\<lambda>y t N beta miu. Inr (deriv_traffic_cell11 y t N beta miu))"
proof -
  have older: "deriv_traffic_cell11 (f, c, r) t N beta miu =
     (- miu * c + beta * k * c * (1 - r - c), miu * c, - beta * k * c * (1 - r - c))"
    by (simp add: deriv_traffic_cell11_def)
  have later: "N \<noteq> 0 \<longrightarrow>
      deriv_traffic (F, C, R) t N beta miu =
        Inr (- miu * C + beta * k * C * (1 - R / N - C / N), miu * C,
             - beta * k * C * (1 - R / N - C / N))"
    by (simp add: deriv_traffic_def true_div_nonzero)
  have apart: "deriv_traffic (999, 1, 0) 0 1000 (1/5) (1/10)
     \<noteq> Inr (deriv_traffic_cell11 (999, 1, 0) 0 1000 (1/5) (1/10))"
    by (simp add: deriv_traffic_def deriv_traffic_cell11_def true_div_def k_def)
  have unequal: "deriv_traffic \<noteq> (\<lambda>y t N beta miu. Inr (deriv_traffic_cell11 y t N beta miu))"
  proof
    assume same: "deriv_traffic = (\<lambda>y t N beta miu. Inr (deriv_traffic_cell11 y t N beta miu))"
    have "deriv_traffic (999, 1, 0) 0 1000 (1/5) (1/10)
        = Inr (deriv_traffic_cell11 (999, 1, 0) 0 1000 (1/5) (1/10))"
      by (subst same) (rule refl)
    with apart show False ..
  qed
  from older later apart unequal show ?thesis by blast
qed

theorem deriv_traffic_formulations_differ_witness:
  "(1000::real) \<noteq> 0 \<and>
   deriv_traffic_cell11 (999, 1, 0) 0 1000 (1/5) (1/10) = (- (1/10), 1/10, 0) \<and>
   deriv_traffic (999, 1, 0) 0 1000 (1/5) (1/10) = Inr (499/5000, 1/10, - (999/5000))"
  using deriv_traffic_formulations_differ [where f = 999 and c = 1 and r = 0
      and F = 999 and C = 1 and R = 0 and t = 0 and N = 1000
      and beta = "1/5" and miu = "1/10"]
  by (simp add: k_def)

text \<open>
  C1. The later traffic derivative is called on the state \<open>(F, C, R)\<close> and returns its
  rates in the order \<open>(dCdt, dRdt, dFdt)\<close>. At the first call of the notebook's run, on
  \<open>y_0 = (F_0, C_0, R_0) = (999, 1, 0)\<close> with \<open>N = 1000\<close>, \<open>beta = 0.2\<close>, \<open>miu = 0.1\<close>, the component
  that stands for \<open>F\<close> holds the rate of \<open>C\<close>, the one for \<open>C\<close> holds the rate of \<open>R\<close>, and
  the one for \<open>R\<close> holds the rate of \<open>F\<close>; the result is not the triple
  \<open>(dFdt, dCdt, dRdt)\<close> of the rates in the order of the state.
\<close>

theorem deriv_traffic_rates_out_of_place:
  "y_0 = (999, 1, 0) \<and>
   deriv_traffic y_0 0 1000 (1/5) (1/10) = Inr (499/5000, 1/10, - (999/5000)) \<and>
   deriv_traffic y_0 0 1000 (1/5) (1/10)
     \<noteq> Inr (- (1/5) * k * 1 * (1 - 0 / 1000 - 1 / 1000),
            - (1/10) * 1 + (1/5) * k * 1 * (1 - 0 / 1000 - 1 / 1000),
            (1/10) * 1)"
  by (simp add: y_0_def deriv_traffic_def true_div_def k_def)

end
